theory Spec2Isabelle
  imports Main "HOL-Library.Word"
begin

section \<open>Values of the Go program\<close>

text \<open>
  The program is \<^verbatim>\<open>connect-mitm-proxy.go\<close>: a forward proxy that answers HTTP CONNECT by
  forging a leaf certificate and performing a TLS handshake on the hijacked connection.
  Byte slices and strings are character lists; an \<^verbatim>\<open>error\<close> value is identified with the
  text of its \<^verbatim>\<open>Error()\<close> method.
\<close>

type_synonym bytes = string
type_synonym err = string

text \<open>
  A \<^verbatim>\<open>time.Time\<close> is the wall-clock instant in nanoseconds (unbounded); a
  \<^verbatim>\<open>time.Duration\<close> is an \<^verbatim>\<open>int64\<close> count of nanoseconds, and so is Go's \<^verbatim>\<open>int\<close> on the
  64-bit platforms: both are 64-bit words whose arithmetic wraps around.
\<close>

type_synonym time = int
type_synonym Duration = "64 word"

definition Hour :: Duration where
  "Hour = 3600000000000"

definition time_Add :: "time \<Rightarrow> Duration \<Rightarrow> time" where
  "time_Add t d = t + sint d"

definition CRLF :: bytes where
  "CRLF = [CHR 0x0D, CHR 0x0A]"

text \<open>The fields of \<^verbatim>\<open>pkix.Name\<close> and \<^verbatim>\<open>x509.Certificate\<close> that the program sets or reads.\<close>

record pkix_Name =
  Organization :: "string list"

datatype ExtKeyUsage =
    ExtKeyUsageAny
  | ExtKeyUsageServerAuth
  | ExtKeyUsageClientAuth
  | ExtKeyUsageCodeSigning
  | ExtKeyUsageEmailProtection
  | ExtKeyUsageIPSECEndSystem
  | ExtKeyUsageIPSECTunnel
  | ExtKeyUsageIPSECUser
  | ExtKeyUsageTimeStamping
  | ExtKeyUsageOCSPSigning
  | ExtKeyUsageMicrosoftServerGatedCrypto
  | ExtKeyUsageNetscapeServerGatedCrypto
  | ExtKeyUsageMicrosoftCommercialCodeSigning
  | ExtKeyUsageMicrosoftKernelCodeSigning

definition KeyUsageDigitalSignature :: nat where
  "KeyUsageDigitalSignature = 1"

record Certificate =
  SerialNumber :: nat
  Subject :: pkix_Name
  Issuer :: pkix_Name
  DNSNames :: "string list"
  NotBefore :: time
  NotAfter :: time
  KeyUsage :: nat
  ExtKeyUsage :: "ExtKeyUsage list"
  BasicConstraintsValid :: bool
  IsCA :: bool

record ecdsa_PrivateKey =
  PublicKey :: nat
  D :: nat

text \<open>The CA key has the static type \<^verbatim>\<open>any\<close>; it is only handed to the signer.\<close>

type_synonym crypto_PrivateKey = nat

record pem_Block =
  Type :: string
  Bytes :: bytes

record tls_Certificate =
  CertificateChain :: "bytes list"
  TlsPrivateKey :: crypto_PrivateKey

datatype CurveID = CurveP256 | CurveP384 | CurveP521 | X25519

definition VersionTLS13 :: nat where
  "VersionTLS13 = 0x0304"

record tls_Config =
  PreferServerCipherSuites :: bool
  CurvePreferences :: "CurveID list"
  MinVersion :: nat
  Certificates :: "tls_Certificate list"

type_synonym conn = nat

record Request =
  Method :: string
  Host :: string
  RemoteAddr :: string

record forwardProxy =
  caCert :: Certificate
  caKey :: crypto_PrivateKey

section \<open>The standard library and the outside world\<close>

text \<open>
  The program consists of calls into Go's standard library. The deterministic library
  functions it calls are the fields of \<open>stdlib\<close>: nothing is assumed about them except
  where a theorem states a contract as its hypothesis. \<^verbatim>\<open>pem.EncodeToMemory\<close> returns
  \<^verbatim>\<open>nil\<close> on failure and \<^verbatim>\<open>pem.Decode\<close> returns a \<^verbatim>\<open>nil\<close> block when the input holds no PEM
  block: both are \<open>None\<close>. The rest returned by \<^verbatim>\<open>pem.Decode\<close> is dropped, as the program
  drops it.
\<close>

record stdlib =
  pem_EncodeToMemory :: "pem_Block \<Rightarrow> bytes option"
  pem_Decode :: "bytes \<Rightarrow> pem_Block option"
  x509_ParseCertificate :: "bytes \<Rightarrow> err + Certificate"
  x509_ParsePKCS8PrivateKey :: "bytes \<Rightarrow> err + crypto_PrivateKey"
  x509_MarshalPKCS8PrivateKey :: "ecdsa_PrivateKey \<Rightarrow> err + bytes"
  net_SplitHostPort :: "string \<Rightarrow> err + string \<times> string"
  tls_X509KeyPair :: "bytes \<Rightarrow> bytes \<Rightarrow> err + tls_Certificate"

text \<open>
  What the outside world answers during one run of the handler: the network, the random
  source, the clock and the HTTP server the handler runs in. \<open>time_Now n\<close> is the reading
  of the \<open>n\<close>-th call of \<^verbatim>\<open>time.Now()\<close> in the run, counted from 0. \<open>isHijacker\<close> tells
  whether the response writer implements \<^verbatim>\<open>http.Hijacker\<close>.
\<close>

record world =
  net_Dial :: "string \<Rightarrow> err + conn"
  isHijacker :: bool
  Hijack :: "err + conn"
  ecdsa_GenerateKey :: "err + ecdsa_PrivateKey"
  rand_Int :: "nat \<Rightarrow> err + nat"
  time_Now :: "nat \<Rightarrow> time"
  x509_CreateCertificate ::
    "Certificate \<Rightarrow> Certificate \<Rightarrow> nat \<Rightarrow> crypto_PrivateKey \<Rightarrow> err + bytes"
  conn_Write :: "conn \<Rightarrow> bytes \<Rightarrow> err + nat"
  tls_Handshake :: "conn \<Rightarrow> tls_Config \<Rightarrow> err option"

text \<open>
  A call returns, or ends the process through \<^verbatim>\<open>log.Fatal\<close> (which prints its message
  and calls \<^verbatim>\<open>os.Exit(1)\<close>), or panics. Plain \<^verbatim>\<open>log.Println\<close> and \<^verbatim>\<open>log.Printf\<close> lines only
  write to standard error and are left out.
\<close>

datatype 'a run = Return 'a | Fatal string | Panic string

text \<open>The effects of the handler on the network and on the response writer, in order.\<close>

datatype event =
    EvDial string "err + conn"
  | EvHttpError nat string
  | EvHijack "err + conn"
  | EvWrite conn bytes "err + nat"
  | EvHandshake conn tls_Config "err option"

definition StatusMethodNotAllowed :: nat where
  "StatusMethodNotAllowed = 405"

definition StatusServiceUnavailable :: nat where
  "StatusServiceUnavailable = 503"

definition MethodConnect :: string where
  "MethodConnect = ''CONNECT''"

section \<open>The program\<close>

subsection \<open>createCert\<close>

text \<open>
  The template literal of \<^verbatim>\<open>createCert\<close>. The fields it does not mention keep their zero
  value: the issuer is empty and \<open>IsCA\<close> is false. The two validity bounds come from two
  separate calls of \<^verbatim>\<open>time.Now()\<close>; the duration is the \<^verbatim>\<open>int64\<close> product
  \<^verbatim>\<open>time.Duration(hoursValid) * time.Hour\<close>.
\<close>

definition createCert_template :: "world \<Rightarrow> nat \<Rightarrow> string list \<Rightarrow> 64 word \<Rightarrow> Certificate" where
  "createCert_template w serialNumber dnsNames hoursValid =
     \<lparr> SerialNumber = serialNumber,
       Subject = \<lparr> Organization = [''My Corp''] \<rparr>,
       Issuer = \<lparr> Organization = [] \<rparr>,
       DNSNames = dnsNames,
       NotBefore = time_Now w 0,
       NotAfter = time_Add (time_Now w 1) (hoursValid * Hour),
       KeyUsage = KeyUsageDigitalSignature,
       ExtKeyUsage = [ExtKeyUsageServerAuth, ExtKeyUsageClientAuth],
       BasicConstraintsValid = True,
       IsCA = False \<rparr>"

text \<open>
  \<^verbatim>\<open>createCert\<close> returns the PEM texts of the certificate and of the key. Every failure
  is a \<^verbatim>\<open>log.Fatal\<close>. The check after the key is encoded tests \<^verbatim>\<open>pemCert\<close> once more, which
  is not \<^verbatim>\<open>nil\<close> there, so a \<^verbatim>\<open>nil\<close> key text is returned as it is (the empty slice).
\<close>

definition createCert ::
  "stdlib \<Rightarrow> world \<Rightarrow> string list \<Rightarrow> Certificate \<Rightarrow> crypto_PrivateKey \<Rightarrow> 64 word
     \<Rightarrow> (bytes \<times> bytes) run" where
  "createCert lib w dnsNames parent parentKey hoursValid =
     (case ecdsa_GenerateKey w of
        Inl e \<Rightarrow> Fatal (''Failed to generate private key: '' @ e)
      | Inr privateKey \<Rightarrow>
     (case rand_Int w (2 ^ 128) of
        Inl e \<Rightarrow> Fatal (''Failed to generate serial number: '' @ e)
      | Inr serialNumber \<Rightarrow>
     (case x509_CreateCertificate w (createCert_template w serialNumber dnsNames hoursValid)
             parent (PublicKey privateKey) parentKey of
        Inl e \<Rightarrow> Fatal (''Failed to create certificate: '' @ e)
      | Inr derBytes \<Rightarrow>
     (case pem_EncodeToMemory lib \<lparr> Type = ''CERTIFICATE'', Bytes = derBytes \<rparr> of
        None \<Rightarrow> Fatal ''failed to encode certificate to PEM''
      | Some pemCert \<Rightarrow>
     (case x509_MarshalPKCS8PrivateKey lib privateKey of
        Inl e \<Rightarrow> Fatal (''Unable to marshal private key: '' @ e)
      | Inr privBytes \<Rightarrow>
     (case pem_EncodeToMemory lib \<lparr> Type = ''PRIVATE KEY'', Bytes = privBytes \<rparr> of
        None \<Rightarrow> Return (pemCert, [])
      | Some pemKey \<Rightarrow> Return (pemCert, pemKey)))))))"

subsection \<open>loadX509KeyPair and createForwardProxy\<close>

text \<open>
  \<open>fs\<close> is \<^verbatim>\<open>ioutil.ReadFile\<close> on the file system of the run. The block returned by
  \<^verbatim>\<open>pem.Decode\<close> is dereferenced without a \<^verbatim>\<open>nil\<close> check: on a \<^verbatim>\<open>nil\<close> block the field access
  \<^verbatim>\<open>certBlock.Bytes\<close> panics.
\<close>

definition nilDereference :: string where
  "nilDereference = ''runtime error: invalid memory address or nil pointer dereference''"

definition loadX509KeyPair ::
  "stdlib \<Rightarrow> (string \<Rightarrow> err + bytes) \<Rightarrow> string \<Rightarrow> string
     \<Rightarrow> (err + Certificate \<times> crypto_PrivateKey) run" where
  "loadX509KeyPair lib fs certFile keyFile =
     (case fs certFile of
        Inl e \<Rightarrow> Return (Inl e)
      | Inr cf \<Rightarrow>
     (case fs keyFile of
        Inl e \<Rightarrow> Return (Inl e)
      | Inr kf \<Rightarrow>
     (case pem_Decode lib cf of
        None \<Rightarrow> Panic nilDereference
      | Some certBlock \<Rightarrow>
     (case x509_ParseCertificate lib (Bytes certBlock) of
        Inl e \<Rightarrow> Return (Inl e)
      | Inr cert \<Rightarrow>
     (case pem_Decode lib kf of
        None \<Rightarrow> Panic nilDereference
      | Some keyBlock \<Rightarrow>
     (case x509_ParsePKCS8PrivateKey lib (Bytes keyBlock) of
        Inl e \<Rightarrow> Return (Inl e)
      | Inr key \<Rightarrow> Return (Inr (cert, key))))))))"

definition createForwardProxy ::
  "stdlib \<Rightarrow> (string \<Rightarrow> err + bytes) \<Rightarrow> string \<Rightarrow> string \<Rightarrow> forwardProxy run" where
  "createForwardProxy lib fs caCertFile caKeyFile =
     (case loadX509KeyPair lib fs caCertFile caKeyFile of
        Panic m \<Rightarrow> Panic m
      | Fatal m \<Rightarrow> Fatal m
      | Return (Inl e) \<Rightarrow> Fatal (''Error loading CA certificate/key:'' @ e)
      | Return (Inr (cert, key)) \<Rightarrow> Return \<lparr> caCert = cert, caKey = key \<rparr>)"

subsection \<open>The handler\<close>

text \<open>
  \<^verbatim>\<open>proxyConnect\<close>: the events it performs, and how it ends. The \<^verbatim>\<open>err\<close> tested after the
  TLS configuration is built is the one of \<^verbatim>\<open>tls.X509KeyPair\<close>, known to be \<^verbatim>\<open>nil\<close> there, so
  that test never fires. After the handshake the target connection is assigned to the blank
  identifier and the function returns; the two \<^verbatim>\<open>go tunnelConn\<close> lines are comments.
\<close>

definition proxyConnect ::
  "stdlib \<Rightarrow> world \<Rightarrow> forwardProxy \<Rightarrow> Request \<Rightarrow> event list \<times> unit run" where
  "proxyConnect lib w p req =
     (case net_Dial w (Host req) of
        Inl e \<Rightarrow>
          ([EvDial (Host req) (Inl e), EvHttpError StatusServiceUnavailable e], Return ())
      | Inr targetConn \<Rightarrow>
     (if \<not> isHijacker w then
          ([EvDial (Host req) (Inr targetConn)],
           Fatal ''http server doesn't support hijacking connection'')
      else
     (case Hijack w of
        Inl e \<Rightarrow>
          ([EvDial (Host req) (Inr targetConn), EvHijack (Inl e)],
           Fatal ''http hijacking failed'')
      | Inr clientConn \<Rightarrow>
     (case net_SplitHostPort lib (Host req) of
        Inl e \<Rightarrow>
          ([EvDial (Host req) (Inr targetConn), EvHijack (Inr clientConn)],
           Fatal (''error splitting host/port:'' @ e))
      | Inr (host, port) \<Rightarrow>
     (case createCert lib w [host] (caCert p) (caKey p) 240 of
        Fatal m \<Rightarrow>
          ([EvDial (Host req) (Inr targetConn), EvHijack (Inr clientConn)], Fatal m)
      | Panic m \<Rightarrow>
          ([EvDial (Host req) (Inr targetConn), EvHijack (Inr clientConn)], Panic m)
      | Return (pemCert, pemKey) \<Rightarrow>
     (case tls_X509KeyPair lib pemCert pemKey of
        Inl e \<Rightarrow>
          ([EvDial (Host req) (Inr targetConn), EvHijack (Inr clientConn)], Fatal e)
      | Inr tlsCert \<Rightarrow>
     (case conn_Write w clientConn (''HTTP/1.1 200 OK'' @ CRLF @ CRLF) of
        Inl e \<Rightarrow>
          ([EvDial (Host req) (Inr targetConn), EvHijack (Inr clientConn),
            EvWrite clientConn (''HTTP/1.1 200 OK'' @ CRLF @ CRLF) (Inl e)],
           Fatal (''error writing status to client:'' @ e))
      | Inr n \<Rightarrow>
     (let tlsConfig = \<lparr> PreferServerCipherSuites = True,
                        CurvePreferences = [X25519, CurveP256],
                        MinVersion = VersionTLS13,
                        Certificates = [tlsCert] \<rparr>
      in
     (case tls_Handshake w clientConn tlsConfig of
        Some e \<Rightarrow>
          ([EvDial (Host req) (Inr targetConn), EvHijack (Inr clientConn),
            EvWrite clientConn (''HTTP/1.1 200 OK'' @ CRLF @ CRLF) (Inr n),
            EvHandshake clientConn tlsConfig (Some e)],
           Fatal ''error handshake'')
      | None \<Rightarrow>
          ([EvDial (Host req) (Inr targetConn), EvHijack (Inr clientConn),
            EvWrite clientConn (''HTTP/1.1 200 OK'' @ CRLF @ CRLF) (Inr n),
            EvHandshake clientConn tlsConfig None],
           Return ()))))))))))"

definition ServeHTTP ::
  "stdlib \<Rightarrow> world \<Rightarrow> forwardProxy \<Rightarrow> Request \<Rightarrow> event list \<times> unit run" where
  "ServeHTTP lib w p req =
     (if Method req = MethodConnect then proxyConnect lib w p req
      else ([EvHttpError StatusMethodNotAllowed ''this proxy only supports CONNECT''],
            Return ()))"

subsection \<open>The server\<close>

text \<open>
  \<^verbatim>\<open>main\<close> hands the proxy to \<^verbatim>\<open>http.ListenAndServe\<close>, which runs the handler once for each
  inbound request. The model takes the requests in the order in which their handlers end,
  each with the world it runs in, and collects the events of each. A handler that calls
  \<^verbatim>\<open>log.Fatal\<close> exits the process, so no later request is served; a panic of a handler is
  recovered by \<^verbatim>\<open>net/http\<close>, which goes on serving. \<open>Return ()\<close> at the end of the list
  says that the process is still serving.
\<close>

fun ListenAndServe ::
  "stdlib \<Rightarrow> forwardProxy \<Rightarrow> (world \<times> Request) list \<Rightarrow> event list list \<times> unit run" where
  "ListenAndServe lib p [] = ([], Return ())"
| "ListenAndServe lib p ((w, req) # rest) =
     (case ServeHTTP lib w p req of
        (tr, Fatal m) \<Rightarrow> ([tr], Fatal m)
      | (tr, Return u) \<Rightarrow> (case ListenAndServe lib p rest of (trs, r) \<Rightarrow> (tr # trs, r))
      | (tr, Panic m) \<Rightarrow> (case ListenAndServe lib p rest of (trs, r) \<Rightarrow> (tr # trs, r)))"

definition main ::
  "stdlib \<Rightarrow> (string \<Rightarrow> err + bytes) \<Rightarrow> string \<Rightarrow> string \<Rightarrow> (world \<times> Request) list
     \<Rightarrow> event list list \<times> unit run" where
  "main lib fs caCertFile caKeyFile inbound =
     (case createForwardProxy lib fs caCertFile caKeyFile of
        Return proxy \<Rightarrow> ListenAndServe lib proxy inbound
      | Fatal m \<Rightarrow> ([], Fatal m)
      | Panic m \<Rightarrow> ([], Panic m))"

section \<open>Notions used in the statements\<close>

fun isWrite :: "event \<Rightarrow> bool" where
  "isWrite (EvWrite c b r) = True"
| "isWrite _ = False"

text \<open>An event that reads from, writes to or otherwise drives the connection \<open>c\<close>.\<close>

fun usesConn :: "conn \<Rightarrow> event \<Rightarrow> bool" where
  "usesConn c (EvWrite c' b r) = (c = c')"
| "usesConn c (EvHandshake c' cfg r) = (c = c')"
| "usesConn c _ = False"

fun isHttpError :: "event \<Rightarrow> bool" where
  "isHttpError (EvHttpError c s) = True"
| "isHttpError _ = False"

text \<open>
  A certificate stores its validity bounds as ASN.1 times, in whole seconds: the fraction of
  a second of a \<^verbatim>\<open>time.Time\<close> is dropped when the certificate is written.
\<close>

definition wholeSecond :: "time \<Rightarrow> time" where
  "wholeSecond t = t - t mod 1000000000"

text \<open>
  The contract of \<^verbatim>\<open>crypto/x509\<close>, used as a hypothesis: the certificate that
  \<^verbatim>\<open>x509.CreateCertificate\<close> signs for a template under a parent, read back by
  \<^verbatim>\<open>x509.ParseCertificate\<close>, has the parent's subject as its issuer, the serial number and
  the DNS names of the template, and the validity bounds of the template in whole seconds.
\<close>

definition x509_contract :: "stdlib \<Rightarrow> world \<Rightarrow> Certificate \<Rightarrow> bool" where
  "x509_contract lib w parent \<longleftrightarrow>
     (\<forall>template pub priv der. x509_CreateCertificate w template parent pub priv = Inr der \<longrightarrow>
        (\<exists>c. x509_ParseCertificate lib der = Inr c
           \<and> Issuer c = Subject parent
           \<and> SerialNumber c = SerialNumber template
           \<and> DNSNames c = DNSNames template
           \<and> NotBefore c = wholeSecond (NotBefore template)
           \<and> NotAfter c = wholeSecond (NotAfter template)))"

section \<open>A small library and world to run the program in\<close>

text \<open>
  A stand-in for the PEM armour: the type's length in unary, a dot, the type, the bytes.
  A text without the dot holds no block.
\<close>

definition demo_EncodeToMemory :: "pem_Block \<Rightarrow> bytes option" where
  "demo_EncodeToMemory b =
     Some (replicate (length (Type b)) (CHR ''+'') @ CHR ''.'' # Type b @ Bytes b)"

definition demo_Decode :: "bytes \<Rightarrow> pem_Block option" where
  "demo_Decode t =
     (case dropWhile (\<lambda>c. c = CHR ''+'') t of
        [] \<Rightarrow> None
      | c # r \<Rightarrow>
          (if c = CHR ''.'' \<and> length (takeWhile (\<lambda>c. c = CHR ''+'') t) \<le> length r
           then Some \<lparr> Type = take (length (takeWhile (\<lambda>c. c = CHR ''+'') t)) r,
                       Bytes = drop (length (takeWhile (\<lambda>c. c = CHR ''+'') t)) r \<rparr>
           else None))"

definition demo_ca :: Certificate where
  "demo_ca =
     \<lparr> SerialNumber = 1,
       Subject = \<lparr> Organization = [''Demo Root''] \<rparr>,
       Issuer = \<lparr> Organization = [''Demo Root''] \<rparr>,
       DNSNames = [],
       NotBefore = 0,
       NotAfter = 1000000000000000000,
       KeyUsage = 33,
       ExtKeyUsage = [],
       BasicConstraintsValid = True,
       IsCA = True \<rparr>"

text \<open>
  A stand-in for \<^verbatim>\<open>crypto/x509\<close> that knows three leaf certificates for
  \<^verbatim>\<open>example.com\<close> with serial number 42: the signer answers for the three templates they
  come from and refuses every other one, and the parser reads the three back with their
  validity bounds in whole seconds.
\<close>

definition demo_leaf :: "time \<Rightarrow> time \<Rightarrow> Certificate" where
  "demo_leaf notBefore notAfter =
     \<lparr> SerialNumber = 42,
       Subject = \<lparr> Organization = [''My Corp''] \<rparr>,
       Issuer = \<lparr> Organization = [''Demo Root''] \<rparr>,
       DNSNames = [''example.com''],
       NotBefore = notBefore,
       NotAfter = notAfter,
       KeyUsage = 1,
       ExtKeyUsage = [ExtKeyUsageServerAuth, ExtKeyUsageClientAuth],
       BasicConstraintsValid = True,
       IsCA = False \<rparr>"

definition demo_CreateCertificate ::
  "Certificate \<Rightarrow> Certificate \<Rightarrow> nat \<Rightarrow> crypto_PrivateKey \<Rightarrow> err + bytes" where
  "demo_CreateCertificate template parent pub priv =
     (if SerialNumber template = 42 \<and> DNSNames template = [''example.com''] then
        (if NotBefore template = 999999999 \<and> NotAfter template = 864001000000000
           then Inr ''der:example.com''
         else if NotBefore template = 999999999 \<and> NotAfter template = - 9223371272709551616
           then Inr ''der:overflow''
         else if NotBefore template = 1500000000 \<and> NotAfter template = 1500000001
           then Inr ''der:zero''
         else Inl ''x509: template not known'')
      else Inl ''x509: template not known'')"

definition demo_ParseCertificate :: "bytes \<Rightarrow> err + Certificate" where
  "demo_ParseCertificate der =
     (if der = ''der:example.com'' then Inr (demo_leaf 0 864001000000000)
      else if der = ''der:overflow'' then Inr (demo_leaf 0 (- 9223371273000000000))
      else if der = ''der:zero'' then Inr (demo_leaf 1000000000 1000000000)
      else Inl ''x509: malformed certificate'')"

definition demo_SplitHostPort :: "string \<Rightarrow> err + string \<times> string" where
  "demo_SplitHostPort s =
     (if CHR '':'' \<in> set s
      then Inr (rev (tl (dropWhile (\<lambda>c. c \<noteq> CHR '':'') (rev s))),
                rev (takeWhile (\<lambda>c. c \<noteq> CHR '':'') (rev s)))
      else Inl ''missing port in address'')"

definition demo_lib :: stdlib where
  "demo_lib =
     \<lparr> pem_EncodeToMemory = demo_EncodeToMemory,
       pem_Decode = demo_Decode,
       x509_ParseCertificate = demo_ParseCertificate,
       x509_ParsePKCS8PrivateKey = (\<lambda>b. if b = [] then Inl ''x509: malformed key''
                                           else Inr (length b)),
       x509_MarshalPKCS8PrivateKey = (\<lambda>k. Inr (replicate (D k) (CHR ''k''))),
       net_SplitHostPort = demo_SplitHostPort,
       tls_X509KeyPair = (\<lambda>c k. Inr \<lparr> CertificateChain = [c], TlsPrivateKey = length k \<rparr>) \<rparr>"

definition demo_world :: world where
  "demo_world =
     \<lparr> net_Dial = (\<lambda>h. if h = ''example.com:443'' then Inr 1
                         else Inl ''dial tcp: connection refused''),
       isHijacker = True,
       Hijack = Inr 2,
       ecdsa_GenerateKey = Inr \<lparr> PublicKey = 11, D = 3 \<rparr>,
       rand_Int = (\<lambda>limit. Inr (42 mod limit)),
       time_Now = (\<lambda>n. 999999999 + int n),
       x509_CreateCertificate = demo_CreateCertificate,
       conn_Write = (\<lambda>c b. Inr (length b)),
       tls_Handshake = (\<lambda>c cfg. None) \<rparr>"

definition demo_proxy :: forwardProxy where
  "demo_proxy = \<lparr> caCert = demo_ca, caKey = 7 \<rparr>"

definition demo_request :: Request where
  "demo_request =
     \<lparr> Method = ''CONNECT'', Host = ''example.com:443'', RemoteAddr = ''127.0.0.1:50000'' \<rparr>"

definition demo_fs :: "string \<Rightarrow> err + bytes" where
  "demo_fs name =
     (if name = ''ca.pem'' then Inr ''not a PEM file''
      else if name = ''ca.key'' then Inr ''+++.KEYabc''
      else Inl (''open '' @ name @ '': no such file or directory''))"

section \<open>Facts about the parts\<close>

lemma createCert_Return:
  assumes "createCert lib w dnsNames parent parentKey hoursValid = Return (pemCert, pemKey)"
  shows "\<exists>privateKey serialNumber derBytes privBytes.
           ecdsa_GenerateKey w = Inr privateKey
         \<and> rand_Int w (2 ^ 128) = Inr serialNumber
         \<and> x509_CreateCertificate w (createCert_template w serialNumber dnsNames hoursValid)
               parent (PublicKey privateKey) parentKey = Inr derBytes
         \<and> pem_EncodeToMemory lib \<lparr> Type = ''CERTIFICATE'', Bytes = derBytes \<rparr> = Some pemCert
         \<and> x509_MarshalPKCS8PrivateKey lib privateKey = Inr privBytes
         \<and> pemKey = (case pem_EncodeToMemory lib \<lparr> Type = ''PRIVATE KEY'', Bytes = privBytes \<rparr>
                      of None \<Rightarrow> [] | Some k \<Rightarrow> k)"
  using assms unfolding createCert_def
  by (auto split: sum.splits option.splits)

lemma createCert_not_Panic: "createCert lib w dnsNames parent parentKey hoursValid \<noteq> Panic m"
  unfolding createCert_def by (simp split: sum.splits option.splits)

lemma sint_240_hours: "sint ((240 :: 64 word) * Hour) = 864000000000000"
  by (simp add: Hour_def)

lemma demo_template:
  "createCert_template demo_world 42 [''example.com''] 240 =
     \<lparr> SerialNumber = 42,
       Subject = \<lparr> Organization = [''My Corp''] \<rparr>,
       Issuer = \<lparr> Organization = [] \<rparr>,
       DNSNames = [''example.com''],
       NotBefore = 999999999,
       NotAfter = 864001000000000,
       KeyUsage = KeyUsageDigitalSignature,
       ExtKeyUsage = [ExtKeyUsageServerAuth, ExtKeyUsageClientAuth],
       BasicConstraintsValid = True,
       IsCA = False \<rparr>"
  by (simp add: createCert_template_def time_Add_def sint_240_hours demo_world_def)

lemma demo_createCert:
  "createCert demo_lib demo_world [''example.com''] demo_ca 7 240 =
     Return (''+++++++++++.CERTIFICATEder:example.com'', ''+++++++++++.PRIVATE KEYkkk'')"
proof -
  have g: "ecdsa_GenerateKey demo_world = Inr \<lparr> PublicKey = 11, D = 3 \<rparr>"
    "rand_Int demo_world (2 ^ 128) = Inr 42"
    "x509_CreateCertificate demo_world = demo_CreateCertificate"
    by (simp_all add: demo_world_def)
  have s: "demo_CreateCertificate (createCert_template demo_world 42 [''example.com''] 240)
             demo_ca (PublicKey \<lparr> PublicKey = 11, D = 3 \<rparr>) 7 = Inr ''der:example.com''"
    unfolding demo_template by (simp add: demo_CreateCertificate_def)
  show ?thesis
    unfolding createCert_def
    by (simp only: g s sum.case) (simp add: demo_lib_def demo_EncodeToMemory_def numeral_3_eq_3)
qed

lemma demo_SplitHostPort_example:
  "demo_SplitHostPort ''example.com:443'' = Inr (''example.com'', ''443'')"
  by (simp add: demo_SplitHostPort_def)

lemma demo_proxyConnect:
  "proxyConnect demo_lib demo_world demo_proxy demo_request =
     ([EvDial ''example.com:443'' (Inr 1), EvHijack (Inr 2),
       EvWrite 2 (''HTTP/1.1 200 OK'' @ CRLF @ CRLF) (Inr 19),
       EvHandshake 2 \<lparr> PreferServerCipherSuites = True,
                       CurvePreferences = [X25519, CurveP256],
                       MinVersion = VersionTLS13,
                       Certificates = [\<lparr> CertificateChain = [''+++++++++++.CERTIFICATEder:example.com''],
                                        TlsPrivateKey = 26 \<rparr>] \<rparr> None],
      Return ())"
proof -
  have c: "createCert demo_lib demo_world [''example.com''] (caCert demo_proxy) (caKey demo_proxy) 240
           = Return (''+++++++++++.CERTIFICATEder:example.com'', ''+++++++++++.PRIVATE KEYkkk'')"
    using demo_createCert by (simp add: demo_proxy_def)
  have s: "net_SplitHostPort demo_lib ''example.com:443'' = Inr (''example.com'', ''443'')"
    using demo_SplitHostPort_example by (simp add: demo_lib_def)
  have d: "net_Dial demo_world ''example.com:443'' = Inr 1" "isHijacker demo_world"
    "Hijack demo_world = Inr 2"
    "conn_Write demo_world 2 (''HTTP/1.1 200 OK'' @ CRLF @ CRLF) = Inr 19"
    "\<And>cfg. tls_Handshake demo_world 2 cfg = None"
    by (simp_all add: demo_world_def CRLF_def)
  have k: "tls_X509KeyPair demo_lib ''+++++++++++.CERTIFICATEder:example.com'' ''+++++++++++.PRIVATE KEYkkk''
           = Inr \<lparr> CertificateChain = [''+++++++++++.CERTIFICATEder:example.com''], TlsPrivateKey = 26 \<rparr>"
    by (simp add: demo_lib_def)
  have h: "Host demo_request = ''example.com:443''"
    by (simp add: demo_request_def)
  show ?thesis
    unfolding proxyConnect_def h
    by (simp only: c s d k Let_def sum.case run.case prod.case option.case if_False if_True
        simp_thms)
qed

lemma sint_Hour: "sint Hour = 3600000000000"
  by (simp add: Hour_def)

lemma sint_hours:
  assumes "- 2562047 \<le> sint (h :: 64 word)" and "sint h \<le> 2562047"
  shows "sint (h * Hour) = sint h * 3600000000000"
proof -
  have "sint (h * Hour) = signed_take_bit 63 (sint h * sint Hour)"
    by (simp add: sint_word_ariths)
  also have "\<dots> = sint h * 3600000000000"
  proof -
    have lo: "- (2 ^ 63) \<le> sint h * (3600000000000 :: int)"
      using assms(1) by simp
    have hi: "sint h * (3600000000000 :: int) < 2 ^ 63"
      using assms(2) by simp
    show ?thesis
      unfolding sint_Hour using lo hi by (simp add: signed_take_bit_int_eq_self)
  qed
  finally show ?thesis .
qed

lemma template_fields:
  "SerialNumber (createCert_template w n dnsNames h) = n"
  "Subject (createCert_template w n dnsNames h) = \<lparr> Organization = [''My Corp''] \<rparr>"
  "DNSNames (createCert_template w n dnsNames h) = dnsNames"
  "NotBefore (createCert_template w n dnsNames h) = time_Now w 0"
  "NotAfter (createCert_template w n dnsNames h) = time_Now w 1 + sint (h * Hour)"
  "KeyUsage (createCert_template w n dnsNames h) = KeyUsageDigitalSignature"
  "ExtKeyUsage (createCert_template w n dnsNames h) = [ExtKeyUsageServerAuth, ExtKeyUsageClientAuth]"
  "BasicConstraintsValid (createCert_template w n dnsNames h)"
  "\<not> IsCA (createCert_template w n dnsNames h)"
  by (simp_all add: createCert_template_def time_Add_def)

lemma wholeSecond_hours: "wholeSecond (t + k * 3600000000000) = wholeSecond t + k * 3600000000000"
proof -
  have e: "k * 3600000000000 = k * 3600 * (1000000000 :: int)"
    by simp
  have m: "(t + k * 3600000000000) mod 1000000000 = t mod 1000000000"
    unfolding e by (rule mod_mult_self1)
  show ?thesis
    by (simp add: wholeSecond_def m)
qed

lemma wholeSecond_le: "wholeSecond t \<le> t"
  by (simp add: wholeSecond_def)

lemma wholeSecond_gt: "t < wholeSecond t + 1000000000"
proof -
  have "t mod 1000000000 < 1000000000"
    by simp
  then show ?thesis
    by (simp add: wholeSecond_def)
qed

lemma demo_x509_contract:
  assumes "x509_CreateCertificate w = demo_CreateCertificate"
  shows "x509_contract demo_lib w demo_ca"
  unfolding x509_contract_def assms
  by (auto simp: demo_CreateCertificate_def demo_ParseCertificate_def demo_lib_def demo_leaf_def
      demo_ca_def wholeSecond_def split: if_splits)

lemma proxyConnect_cases [case_names DialFailed NoHijacker HijackFailed SplitFailed CertFailed
    KeyPairFailed WriteFailed HandshakeFailed Established]:
  obtains
    e where "net_Dial w (Host req) = Inl e"
      "proxyConnect lib w p req = ([EvDial (Host req) (Inl e), EvHttpError 503 e], Return ())"
  | tc where "net_Dial w (Host req) = Inr tc" "\<not> isHijacker w"
      "proxyConnect lib w p req =
         ([EvDial (Host req) (Inr tc)], Fatal ''http server doesn't support hijacking connection'')"
  | tc e where "net_Dial w (Host req) = Inr tc" "isHijacker w" "Hijack w = Inl e"
      "proxyConnect lib w p req =
         ([EvDial (Host req) (Inr tc), EvHijack (Inl e)], Fatal ''http hijacking failed'')"
  | tc cc e where "net_Dial w (Host req) = Inr tc" "isHijacker w" "Hijack w = Inr cc"
      "net_SplitHostPort lib (Host req) = Inl e"
      "proxyConnect lib w p req =
         ([EvDial (Host req) (Inr tc), EvHijack (Inr cc)], Fatal (''error splitting host/port:'' @ e))"
  | tc cc host port m where "net_Dial w (Host req) = Inr tc" "isHijacker w" "Hijack w = Inr cc"
      "net_SplitHostPort lib (Host req) = Inr (host, port)"
      "createCert lib w [host] (caCert p) (caKey p) 240 = Fatal m"
      "proxyConnect lib w p req = ([EvDial (Host req) (Inr tc), EvHijack (Inr cc)], Fatal m)"
  | tc cc host port pemCert pemKey e where "net_Dial w (Host req) = Inr tc" "isHijacker w"
      "Hijack w = Inr cc" "net_SplitHostPort lib (Host req) = Inr (host, port)"
      "createCert lib w [host] (caCert p) (caKey p) 240 = Return (pemCert, pemKey)"
      "tls_X509KeyPair lib pemCert pemKey = Inl e"
      "proxyConnect lib w p req = ([EvDial (Host req) (Inr tc), EvHijack (Inr cc)], Fatal e)"
  | tc cc host port pemCert pemKey tlsCert e where "net_Dial w (Host req) = Inr tc" "isHijacker w"
      "Hijack w = Inr cc" "net_SplitHostPort lib (Host req) = Inr (host, port)"
      "createCert lib w [host] (caCert p) (caKey p) 240 = Return (pemCert, pemKey)"
      "tls_X509KeyPair lib pemCert pemKey = Inr tlsCert"
      "conn_Write w cc (''HTTP/1.1 200 OK'' @ CRLF @ CRLF) = Inl e"
      "proxyConnect lib w p req =
         ([EvDial (Host req) (Inr tc), EvHijack (Inr cc),
           EvWrite cc (''HTTP/1.1 200 OK'' @ CRLF @ CRLF) (Inl e)],
          Fatal (''error writing status to client:'' @ e))"
  | tc cc host port pemCert pemKey tlsCert n e where "net_Dial w (Host req) = Inr tc" "isHijacker w"
      "Hijack w = Inr cc" "net_SplitHostPort lib (Host req) = Inr (host, port)"
      "createCert lib w [host] (caCert p) (caKey p) 240 = Return (pemCert, pemKey)"
      "tls_X509KeyPair lib pemCert pemKey = Inr tlsCert"
      "conn_Write w cc (''HTTP/1.1 200 OK'' @ CRLF @ CRLF) = Inr n"
      "proxyConnect lib w p req =
         ([EvDial (Host req) (Inr tc), EvHijack (Inr cc),
           EvWrite cc (''HTTP/1.1 200 OK'' @ CRLF @ CRLF) (Inr n),
           EvHandshake cc \<lparr> PreferServerCipherSuites = True,
                             CurvePreferences = [X25519, CurveP256],
                             MinVersion = VersionTLS13,
                             Certificates = [tlsCert] \<rparr> (Some e)],
          Fatal ''error handshake'')"
  | tc cc host port pemCert pemKey tlsCert n where "net_Dial w (Host req) = Inr tc" "isHijacker w"
      "Hijack w = Inr cc" "net_SplitHostPort lib (Host req) = Inr (host, port)"
      "createCert lib w [host] (caCert p) (caKey p) 240 = Return (pemCert, pemKey)"
      "tls_X509KeyPair lib pemCert pemKey = Inr tlsCert"
      "conn_Write w cc (''HTTP/1.1 200 OK'' @ CRLF @ CRLF) = Inr n"
      "proxyConnect lib w p req =
         ([EvDial (Host req) (Inr tc), EvHijack (Inr cc),
           EvWrite cc (''HTTP/1.1 200 OK'' @ CRLF @ CRLF) (Inr n),
           EvHandshake cc \<lparr> PreferServerCipherSuites = True,
                             CurvePreferences = [X25519, CurveP256],
                             MinVersion = VersionTLS13,
                             Certificates = [tlsCert] \<rparr> None],
          Return ())"
proof (cases "net_Dial w (Host req)")
  case (Inl e)
  then show ?thesis
    using that(1) by (simp add: proxyConnect_def StatusServiceUnavailable_def)
next
  case d: (Inr tc)
  show ?thesis
  proof (cases "isHijacker w")
    case False
    with d show ?thesis using that(2) by (simp add: proxyConnect_def)
  next
    case hj: True
    show ?thesis
    proof (cases "Hijack w")
      case (Inl e)
      with d hj show ?thesis using that(3) by (simp add: proxyConnect_def)
    next
      case h: (Inr cc)
      show ?thesis
      proof (cases "net_SplitHostPort lib (Host req)")
        case (Inl e)
        with d hj h show ?thesis using that(4) by (simp add: proxyConnect_def)
      next
        case (Inr hp)
        then obtain host port where s: "net_SplitHostPort lib (Host req) = Inr (host, port)"
          by (cases hp) simp
        show ?thesis
        proof (cases "createCert lib w [host] (caCert p) (caKey p) 240")
          case (Fatal m)
          with d hj h s show ?thesis using that(5) by (simp add: proxyConnect_def)
        next
          case (Panic m)
          then show ?thesis by (simp add: createCert_not_Panic)
        next
          case (Return pems)
          then obtain pemCert pemKey where
            c: "createCert lib w [host] (caCert p) (caKey p) 240 = Return (pemCert, pemKey)"
            by (cases pems) simp
          show ?thesis
          proof (cases "tls_X509KeyPair lib pemCert pemKey")
            case (Inl e)
            with d hj h s c show ?thesis using that(6) by (simp add: proxyConnect_def)
          next
            case k: (Inr tlsCert)
            show ?thesis
            proof (cases "conn_Write w cc (''HTTP/1.1 200 OK'' @ CRLF @ CRLF)")
              case (Inl e)
              with d hj h s c k show ?thesis using that(7) by (simp add: proxyConnect_def)
            next
              case wr: (Inr n)
              show ?thesis
              proof (cases "tls_Handshake w cc \<lparr> PreferServerCipherSuites = True,
                             CurvePreferences = [X25519, CurveP256],
                             MinVersion = VersionTLS13,
                             Certificates = [tlsCert] \<rparr>")
                case (Some e)
                with d hj h s c k wr show ?thesis
                  using that(8) by (simp add: proxyConnect_def)
              next
                case None
                with d hj h s c k wr show ?thesis
                  using that(9) by (simp add: proxyConnect_def)
              qed
            qed
          qed
        qed
      qed
    qed
  qed
qed

lemma proxyConnect_handshake_cert:
  assumes "EvHandshake c cfg r \<in> set (fst (proxyConnect lib w p req))"
  shows "\<exists>host port pemCert pemKey tlsCert.
           net_SplitHostPort lib (Host req) = Inr (host, port)
         \<and> createCert lib w [host] (caCert p) (caKey p) 240 = Return (pemCert, pemKey)
         \<and> tls_X509KeyPair lib pemCert pemKey = Inr tlsCert
         \<and> Certificates cfg = [tlsCert]"
  using assms by (cases rule: proxyConnect_cases [of w req lib p]) auto

lemma proxyConnect_handshake_failed:
  assumes "EvHandshake c cfg (Some e) \<in> set (fst (proxyConnect lib w p req))"
  shows "snd (proxyConnect lib w p req) = Fatal ''error handshake''"
  using assms by (cases rule: proxyConnect_cases [of w req lib p]) auto

lemma proxyConnect_Fatal_no_response:
  assumes "snd (proxyConnect lib w p req) = Fatal m"
  shows "filter isHttpError (fst (proxyConnect lib w p req)) = []"
  using assms by (cases rule: proxyConnect_cases [of w req lib p]) auto

lemma proxyConnect_Return_or_Fatal:
  "snd (proxyConnect lib w p req) = Return () \<or> (\<exists>m. snd (proxyConnect lib w p req) = Fatal m)"
  by (cases rule: proxyConnect_cases [of w req lib p]) auto

lemma proxyConnect_Return:
  assumes "snd (proxyConnect lib w p req) = Return ()"
  shows "(\<exists>e. net_Dial w (Host req) = Inl e)
      \<or> (\<exists>c cfg. EvHandshake c cfg None \<in> set (fst (proxyConnect lib w p req)))"
  using assms by (cases rule: proxyConnect_cases [of w req lib p]) auto

section \<open>The claims\<close>

text \<open>
  Claim C1, as amended. Let \<open>hoursValid\<close> be at least 1 and at most 2562047, so that the
  duration in nanoseconds fits \<^verbatim>\<open>int64\<close>, and let \<open>now\<close> be any instant from the first to
  the second of the two clock readings that \<^verbatim>\<open>createCert\<close> takes. Whenever \<^verbatim>\<open>createCert\<close>
  returns, for any CA pair and any list of host names, it returns the PEM text of a
  certificate, signed with the CA certificate as parent and the CA key, for which the
  following holds under the contract of \<^verbatim>\<open>crypto/x509\<close>. Its issuer is the CA's subject
  and its DNS names are exactly the requested ones. Its \<open>NotBefore\<close> is the first reading
  and its \<open>NotAfter\<close> is the second reading plus \<open>hoursValid\<close> hours, both in whole
  seconds, so that \<open>NotBefore \<le> now \<le> NotAfter\<close>, and \<open>NotAfter\<close> is \<open>NotBefore\<close> plus
  the validity whenever the two readings fall in the same second. The template has the
  subject organization \<^verbatim>\<open>My Corp\<close>, key usage digital signature, extended key usage server
  and client authentication, \<open>BasicConstraintsValid\<close> true and \<open>IsCA\<close> false.
\<close>

theorem createCert_certificate:
  assumes ret: "createCert lib w dnsNames parent parentKey hoursValid = Return (pemCert, pemKey)"
    and lo: "1 \<le> sint hoursValid" and hi: "sint hoursValid \<le> 2562047"
    and now: "time_Now w 0 \<le> now" "now \<le> time_Now w 1"
    and lib: "x509_contract lib w parent"
  shows "\<exists>privateKey serialNumber derBytes issued.
           ecdsa_GenerateKey w = Inr privateKey
         \<and> rand_Int w (2 ^ 128) = Inr serialNumber
         \<and> x509_CreateCertificate w (createCert_template w serialNumber dnsNames hoursValid)
               parent (PublicKey privateKey) parentKey = Inr derBytes
         \<and> pem_EncodeToMemory lib \<lparr> Type = ''CERTIFICATE'', Bytes = derBytes \<rparr> = Some pemCert
         \<and> x509_ParseCertificate lib derBytes = Inr issued
         \<and> Issuer issued = Subject parent
         \<and> DNSNames issued = dnsNames
         \<and> NotBefore issued = wholeSecond (time_Now w 0)
         \<and> NotAfter issued = wholeSecond (time_Now w 1) + sint hoursValid * 3600000000000
         \<and> NotBefore issued \<le> now
         \<and> now \<le> NotAfter issued
         \<and> (wholeSecond (time_Now w 0) = wholeSecond (time_Now w 1) \<longrightarrow>
              NotAfter issued = NotBefore issued + sint hoursValid * 3600000000000)
         \<and> Subject (createCert_template w serialNumber dnsNames hoursValid)
             = \<lparr> Organization = [''My Corp''] \<rparr>
         \<and> KeyUsage (createCert_template w serialNumber dnsNames hoursValid)
             = KeyUsageDigitalSignature
         \<and> ExtKeyUsage (createCert_template w serialNumber dnsNames hoursValid)
             = [ExtKeyUsageServerAuth, ExtKeyUsageClientAuth]
         \<and> BasicConstraintsValid (createCert_template w serialNumber dnsNames hoursValid)
         \<and> \<not> IsCA (createCert_template w serialNumber dnsNames hoursValid)"
proof -
  from createCert_Return [OF ret] obtain privateKey serialNumber derBytes where
    gen: "ecdsa_GenerateKey w = Inr privateKey" "rand_Int w (2 ^ 128) = Inr serialNumber"
    and sign: "x509_CreateCertificate w (createCert_template w serialNumber dnsNames hoursValid)
               parent (PublicKey privateKey) parentKey = Inr derBytes"
    and pem: "pem_EncodeToMemory lib \<lparr> Type = ''CERTIFICATE'', Bytes = derBytes \<rparr> = Some pemCert"
    by auto
  let ?t = "createCert_template w serialNumber dnsNames hoursValid"
  from lib sign obtain issued where
    parse: "x509_ParseCertificate lib derBytes = Inr issued"
    and iss: "Issuer issued = Subject parent"
    and dns: "DNSNames issued = DNSNames ?t"
    and nb: "NotBefore issued = wholeSecond (NotBefore ?t)"
    and na: "NotAfter issued = wholeSecond (NotAfter ?t)"
    unfolding x509_contract_def by blast
  have d: "sint (hoursValid * Hour) = sint hoursValid * 3600000000000"
    using lo hi by (intro sint_hours) simp_all
  have nb': "NotBefore issued = wholeSecond (time_Now w 0)"
    by (simp add: nb template_fields)
  have na': "NotAfter issued = wholeSecond (time_Now w 1) + sint hoursValid * 3600000000000"
    by (simp add: na template_fields d wholeSecond_hours)
  have before: "NotBefore issued \<le> now"
    unfolding nb' using wholeSecond_le [of "time_Now w 0"] now(1) by simp
  have "(1000000000 :: int) \<le> sint hoursValid * 3600000000000"
    using lo by simp
  with wholeSecond_gt [of "time_Now w 1"] now(2) have after: "now \<le> NotAfter issued"
    unfolding na' by simp
  have same: "wholeSecond (time_Now w 0) = wholeSecond (time_Now w 1) \<longrightarrow>
              NotAfter issued = NotBefore issued + sint hoursValid * 3600000000000"
    by (simp add: nb' na')
  show ?thesis
    using gen sign pem parse iss dns nb' na' before after same
    by (intro exI [of _ privateKey] exI [of _ serialNumber] exI [of _ derBytes] exI [of _ issued])
       (simp add: template_fields)
qed

theorem createCert_certificate_witness:
  "\<exists>derBytes issued.
       pem_EncodeToMemory demo_lib \<lparr> Type = ''CERTIFICATE'', Bytes = derBytes \<rparr>
         = Some ''+++++++++++.CERTIFICATEder:example.com''
     \<and> x509_ParseCertificate demo_lib derBytes = Inr issued
     \<and> Issuer issued = Subject demo_ca
     \<and> DNSNames issued = [''example.com'']
     \<and> NotBefore issued \<le> 1000000000
     \<and> 1000000000 \<le> NotAfter issued"
proof -
  have lo: "1 \<le> sint (240 :: 64 word)" and hi: "sint (240 :: 64 word) \<le> 2562047"
    by simp_all
  have now: "time_Now demo_world 0 \<le> 1000000000" "1000000000 \<le> time_Now demo_world 1"
    by (simp_all add: demo_world_def)
  have lib: "x509_contract demo_lib demo_world demo_ca"
    by (rule demo_x509_contract) (simp add: demo_world_def)
  from createCert_certificate [OF demo_createCert lo hi now lib]
  show ?thesis by blast
qed

text \<open>
  The claim as stated fails in three runs with the CA \<open>demo_ca\<close> and the host
  \<^verbatim>\<open>example.com\<close>. With 240 hours and the two clock readings on either side of a full
  second, \<open>NotAfter\<close> of the certificate is \<open>NotBefore\<close> plus 240 hours and one second.
  With 2562048 hours the duration overflows \<^verbatim>\<open>int64\<close> and the certificate expires before it
  starts. With 0 hours and both readings within one second, the certificate has expired
  before the first reading.
\<close>

theorem createCert_validity_counterexample:
  "createCert demo_lib demo_world [''example.com''] demo_ca 7 240
     = Return (''+++++++++++.CERTIFICATEder:example.com'', ''+++++++++++.PRIVATE KEYkkk'')
   \<and> pem_EncodeToMemory demo_lib \<lparr> Type = ''CERTIFICATE'', Bytes = ''der:example.com'' \<rparr>
       = Some ''+++++++++++.CERTIFICATEder:example.com''
   \<and> x509_ParseCertificate demo_lib ''der:example.com'' = Inr (demo_leaf 0 864001000000000)
   \<and> NotAfter (demo_leaf 0 864001000000000)
       \<noteq> NotBefore (demo_leaf 0 864001000000000) + sint (240 :: 64 word) * 3600000000000
   \<and> createCert demo_lib demo_world [''example.com''] demo_ca 7 2562048
       = Return (''+++++++++++.CERTIFICATEder:overflow'', ''+++++++++++.PRIVATE KEYkkk'')
   \<and> pem_EncodeToMemory demo_lib \<lparr> Type = ''CERTIFICATE'', Bytes = ''der:overflow'' \<rparr>
       = Some ''+++++++++++.CERTIFICATEder:overflow''
   \<and> x509_ParseCertificate demo_lib ''der:overflow'' = Inr (demo_leaf 0 (- 9223371273000000000))
   \<and> NotAfter (demo_leaf 0 (- 9223371273000000000))
       < NotBefore (demo_leaf 0 (- 9223371273000000000))
   \<and> createCert demo_lib (demo_world \<lparr> time_Now := \<lambda>n. 1500000000 + int n \<rparr>)
         [''example.com''] demo_ca 7 0
       = Return (''+++++++++++.CERTIFICATEder:zero'', ''+++++++++++.PRIVATE KEYkkk'')
   \<and> pem_EncodeToMemory demo_lib \<lparr> Type = ''CERTIFICATE'', Bytes = ''der:zero'' \<rparr>
       = Some ''+++++++++++.CERTIFICATEder:zero''
   \<and> x509_ParseCertificate demo_lib ''der:zero'' = Inr (demo_leaf 1000000000 1000000000)
   \<and> NotAfter (demo_leaf 1000000000 1000000000)
       < time_Now (demo_world \<lparr> time_Now := \<lambda>n. 1500000000 + int n \<rparr>) 0"
proof -
  let ?w = "demo_world \<lparr> time_Now := \<lambda>n. 1500000000 + int n \<rparr>"
  have ovf: "sint ((2562048 :: 64 word) * Hour) = - 9223371273709551616"
    by (simp add: Hour_def)
  have zero: "sint ((0 :: 64 word) * Hour) = 0"
    by simp
  have a: "createCert demo_lib demo_world [''example.com''] demo_ca 7 2562048
       = Return (''+++++++++++.CERTIFICATEder:overflow'', ''+++++++++++.PRIVATE KEYkkk'')"
    unfolding createCert_def
    by (simp add: demo_world_def createCert_template_def time_Add_def ovf
        demo_CreateCertificate_def)
       (simp add: demo_lib_def demo_EncodeToMemory_def numeral_3_eq_3)
  have b: "createCert demo_lib ?w [''example.com''] demo_ca 7 0
       = Return (''+++++++++++.CERTIFICATEder:zero'', ''+++++++++++.PRIVATE KEYkkk'')"
    unfolding createCert_def
    by (simp add: demo_world_def createCert_template_def time_Add_def
        demo_CreateCertificate_def)
       (simp add: demo_lib_def demo_EncodeToMemory_def numeral_3_eq_3)
  have p: "pem_EncodeToMemory demo_lib \<lparr> Type = ''CERTIFICATE'', Bytes = ''der:example.com'' \<rparr>
       = Some ''+++++++++++.CERTIFICATEder:example.com''"
    "pem_EncodeToMemory demo_lib \<lparr> Type = ''CERTIFICATE'', Bytes = ''der:overflow'' \<rparr>
       = Some ''+++++++++++.CERTIFICATEder:overflow''"
    "pem_EncodeToMemory demo_lib \<lparr> Type = ''CERTIFICATE'', Bytes = ''der:zero'' \<rparr>
       = Some ''+++++++++++.CERTIFICATEder:zero''"
    by (simp_all add: demo_lib_def demo_EncodeToMemory_def)
  have q: "x509_ParseCertificate demo_lib ''der:example.com'' = Inr (demo_leaf 0 864001000000000)"
    "x509_ParseCertificate demo_lib ''der:overflow'' = Inr (demo_leaf 0 (- 9223371273000000000))"
    "x509_ParseCertificate demo_lib ''der:zero'' = Inr (demo_leaf 1000000000 1000000000)"
    by (simp_all add: demo_lib_def demo_ParseCertificate_def)
  have r: "NotAfter (demo_leaf 0 864001000000000)
       \<noteq> NotBefore (demo_leaf 0 864001000000000) + sint (240 :: 64 word) * 3600000000000"
    "NotAfter (demo_leaf 0 (- 9223371273000000000))
       < NotBefore (demo_leaf 0 (- 9223371273000000000))"
    "NotAfter (demo_leaf 1000000000 1000000000) < time_Now ?w 0"
    by (simp_all add: demo_leaf_def demo_world_def)
  show ?thesis
    by (intro conjI) (fact demo_createCert a b p q r)+
qed

text \<open>
  Claim C2, as amended. Of the errors of one connection only a failed dial is handled
  within that connection: it is answered 503 and the handler returns. When the response
  writer is no hijacker, when the hijack fails, when \<^verbatim>\<open>createCert\<close> fails (key generation,
  serial number, signing) and when the TLS handshake fails, the handler calls \<^verbatim>\<open>log.Fatal\<close>:
  no HTTP error response is written, the process exits and the connections that follow are
  not served. A run of the handler either returns or exits the process, and it returns only
  after a failed dial or a successful handshake.
\<close>

theorem proxyConnect_failures:
  "(\<forall>e. net_Dial w (Host req) = Inl e \<longrightarrow>
      proxyConnect lib w p req = ([EvDial (Host req) (Inl e), EvHttpError 503 e], Return ()))
 \<and> (\<forall>tc. net_Dial w (Host req) = Inr tc \<and> \<not> isHijacker w \<longrightarrow>
      snd (proxyConnect lib w p req) = Fatal ''http server doesn't support hijacking connection'')
 \<and> (\<forall>tc e. net_Dial w (Host req) = Inr tc \<and> isHijacker w \<and> Hijack w = Inl e \<longrightarrow>
      snd (proxyConnect lib w p req) = Fatal ''http hijacking failed'')
 \<and> (\<forall>tc cc host port m. net_Dial w (Host req) = Inr tc \<and> isHijacker w \<and> Hijack w = Inr cc
        \<and> net_SplitHostPort lib (Host req) = Inr (host, port)
        \<and> createCert lib w [host] (caCert p) (caKey p) 240 = Fatal m \<longrightarrow>
      snd (proxyConnect lib w p req) = Fatal m)
 \<and> (\<forall>e. ecdsa_GenerateKey w = Inl e \<longrightarrow>
      createCert lib w dnsNames parent parentKey hoursValid
        = Fatal (''Failed to generate private key: '' @ e))
 \<and> (\<forall>k e. ecdsa_GenerateKey w = Inr k \<and> rand_Int w (2 ^ 128) = Inl e \<longrightarrow>
      createCert lib w dnsNames parent parentKey hoursValid
        = Fatal (''Failed to generate serial number: '' @ e))
 \<and> (\<forall>k n e. ecdsa_GenerateKey w = Inr k \<and> rand_Int w (2 ^ 128) = Inr n
        \<and> x509_CreateCertificate w (createCert_template w n dnsNames hoursValid) parent
             (PublicKey k) parentKey = Inl e \<longrightarrow>
      createCert lib w dnsNames parent parentKey hoursValid
        = Fatal (''Failed to create certificate: '' @ e))
 \<and> (\<forall>c cfg e. EvHandshake c cfg (Some e) \<in> set (fst (proxyConnect lib w p req)) \<longrightarrow>
      snd (proxyConnect lib w p req) = Fatal ''error handshake'')
 \<and> (\<forall>m. snd (proxyConnect lib w p req) = Fatal m \<longrightarrow>
      filter isHttpError (fst (proxyConnect lib w p req)) = []
      \<and> (Method req = MethodConnect \<longrightarrow>
           ListenAndServe lib p ((w, req) # rest) = ([fst (proxyConnect lib w p req)], Fatal m)))
 \<and> (snd (proxyConnect lib w p req) = Return () \<or> (\<exists>m. snd (proxyConnect lib w p req) = Fatal m))
 \<and> (snd (proxyConnect lib w p req) = Return () \<longrightarrow>
      (\<exists>e. net_Dial w (Host req) = Inl e)
      \<or> (\<exists>c cfg. EvHandshake c cfg None \<in> set (fst (proxyConnect lib w p req))))"
proof -
  have dial: "\<forall>e. net_Dial w (Host req) = Inl e \<longrightarrow>
      proxyConnect lib w p req = ([EvDial (Host req) (Inl e), EvHttpError 503 e], Return ())"
    by (simp add: proxyConnect_def StatusServiceUnavailable_def)
  have nohj: "\<forall>tc. net_Dial w (Host req) = Inr tc \<and> \<not> isHijacker w \<longrightarrow>
      snd (proxyConnect lib w p req) = Fatal ''http server doesn't support hijacking connection''"
    by (simp add: proxyConnect_def)
  have hj: "\<forall>tc e. net_Dial w (Host req) = Inr tc \<and> isHijacker w \<and> Hijack w = Inl e \<longrightarrow>
      snd (proxyConnect lib w p req) = Fatal ''http hijacking failed''"
    by (simp add: proxyConnect_def)
  have cc: "\<forall>tc cc host port m. net_Dial w (Host req) = Inr tc \<and> isHijacker w \<and> Hijack w = Inr cc
        \<and> net_SplitHostPort lib (Host req) = Inr (host, port)
        \<and> createCert lib w [host] (caCert p) (caKey p) 240 = Fatal m \<longrightarrow>
      snd (proxyConnect lib w p req) = Fatal m"
    by (simp add: proxyConnect_def)
  have kg: "\<forall>e. ecdsa_GenerateKey w = Inl e \<longrightarrow>
      createCert lib w dnsNames parent parentKey hoursValid
        = Fatal (''Failed to generate private key: '' @ e)"
    by (simp add: createCert_def)
  have sn: "\<forall>k e. ecdsa_GenerateKey w = Inr k \<and> rand_Int w (2 ^ 128) = Inl e \<longrightarrow>
      createCert lib w dnsNames parent parentKey hoursValid
        = Fatal (''Failed to generate serial number: '' @ e)"
    by (simp add: createCert_def)
  have sg: "\<forall>k n e. ecdsa_GenerateKey w = Inr k \<and> rand_Int w (2 ^ 128) = Inr n
        \<and> x509_CreateCertificate w (createCert_template w n dnsNames hoursValid) parent
             (PublicKey k) parentKey = Inl e \<longrightarrow>
      createCert lib w dnsNames parent parentKey hoursValid
        = Fatal (''Failed to create certificate: '' @ e)"
    by (simp add: createCert_def)
  have hs: "\<forall>c cfg e. EvHandshake c cfg (Some e) \<in> set (fst (proxyConnect lib w p req)) \<longrightarrow>
      snd (proxyConnect lib w p req) = Fatal ''error handshake''"
    using proxyConnect_handshake_failed by blast
  have ne: "\<forall>m. snd (proxyConnect lib w p req) = Fatal m \<longrightarrow>
      filter isHttpError (fst (proxyConnect lib w p req)) = []"
    using proxyConnect_Fatal_no_response by blast
  have ls: "\<forall>m. snd (proxyConnect lib w p req) = Fatal m \<longrightarrow> Method req = MethodConnect \<longrightarrow>
           ListenAndServe lib p ((w, req) # rest) = ([fst (proxyConnect lib w p req)], Fatal m)"
    by (cases "proxyConnect lib w p req") (simp add: ServeHTTP_def)
  have rf: "snd (proxyConnect lib w p req) = Return () \<or> (\<exists>m. snd (proxyConnect lib w p req) = Fatal m)"
    by (rule proxyConnect_Return_or_Fatal)
  have rt: "snd (proxyConnect lib w p req) = Return () \<longrightarrow>
      (\<exists>e. net_Dial w (Host req) = Inl e)
      \<or> (\<exists>c cfg. EvHandshake c cfg None \<in> set (fst (proxyConnect lib w p req)))"
    using proxyConnect_Return by blast
  from ne ls have nels: "\<forall>m. snd (proxyConnect lib w p req) = Fatal m \<longrightarrow>
      filter isHttpError (fst (proxyConnect lib w p req)) = []
      \<and> (Method req = MethodConnect \<longrightarrow>
           ListenAndServe lib p ((w, req) # rest) = ([fst (proxyConnect lib w p req)], Fatal m))"
    by blast
  show ?thesis
    by (intro conjI) (fact dial nohj hj cc kg sn sg hs nels rf rt)+
qed

theorem proxyConnect_failures_witness:
  "snd (proxyConnect demo_lib (demo_world \<lparr> Hijack := Inl ''hijack refused'' \<rparr>) demo_proxy
          demo_request) = Fatal ''http hijacking failed''
   \<and> filter isHttpError (fst (proxyConnect demo_lib
          (demo_world \<lparr> Hijack := Inl ''hijack refused'' \<rparr>) demo_proxy demo_request)) = []"
proof -
  let ?w = "demo_world \<lparr> Hijack := Inl ''hijack refused'' \<rparr>"
  have d: "net_Dial ?w (Host demo_request) = Inr 1 \<and> isHijacker ?w
             \<and> Hijack ?w = Inl ''hijack refused''"
    by (simp add: demo_world_def demo_request_def)
  note t = proxyConnect_failures [where w = ?w and req = demo_request and lib = demo_lib
      and p = demo_proxy and dnsNames = "[]" and parent = demo_ca and parentKey = 7
      and hoursValid = 240 and rest = "[]"]
  note hijack = t [THEN conjunct2, THEN conjunct2, THEN conjunct1]
  note fatal = t [THEN conjunct2, THEN conjunct2, THEN conjunct2, THEN conjunct2,
      THEN conjunct2, THEN conjunct2, THEN conjunct2, THEN conjunct2, THEN conjunct1]
  from d hijack have f: "snd (proxyConnect demo_lib ?w demo_proxy demo_request)
                           = Fatal ''http hijacking failed''"
    by blast
  from f fatal show ?thesis by blast
qed

text \<open>
  The claim as stated says that a hijack failure is answered with a 5xx response and never
  ends the listener. In the run below the hijack of the first request fails: the process
  exits without any response, and the second request is not served.
\<close>

theorem proxyConnect_fatal_counterexample:
  "ListenAndServe demo_lib demo_proxy
     [(demo_world \<lparr> Hijack := Inl ''hijack refused'' \<rparr>, demo_request), (demo_world, demo_request)]
   = ([[EvDial ''example.com:443'' (Inr 1), EvHijack (Inl ''hijack refused'')]],
      Fatal ''http hijacking failed'')"
  by (simp add: ServeHTTP_def proxyConnect_def demo_world_def demo_request_def MethodConnect_def)

text \<open>
  Claim C3, as amended. In every run in which the upstream dial and the client-facing TLS
  handshake both succeed, \<^verbatim>\<open>proxyConnect\<close> does exactly four things, the dial, the hijack,
  the write of the status line and the handshake, and then returns: it starts no copy loop
  and never reads from, writes to or closes the upstream connection.
\<close>

theorem proxyConnect_returns_after_handshake:
  assumes "EvHandshake c cfg None \<in> set (fst (proxyConnect lib w p req))"
  shows "\<exists>tc n. proxyConnect lib w p req =
           ([EvDial (Host req) (Inr tc), EvHijack (Inr c),
             EvWrite c (''HTTP/1.1 200 OK'' @ CRLF @ CRLF) (Inr n),
             EvHandshake c cfg None],
            Return ())"
  using assms by (cases rule: proxyConnect_cases [of w req lib p]) auto

theorem proxyConnect_returns_after_handshake_witness:
  "\<exists>tc n cfg. proxyConnect demo_lib demo_world demo_proxy demo_request =
           ([EvDial (Host demo_request) (Inr tc), EvHijack (Inr 2),
             EvWrite 2 (''HTTP/1.1 200 OK'' @ CRLF @ CRLF) (Inr n),
             EvHandshake 2 cfg None],
            Return ())"
proof -
  have "\<exists>cfg. EvHandshake 2 cfg None
          \<in> set (fst (proxyConnect demo_lib demo_world demo_proxy demo_request))"
    by (simp add: demo_proxyConnect)
  then obtain cfg where h: "EvHandshake 2 cfg None
          \<in> set (fst (proxyConnect demo_lib demo_world demo_proxy demo_request))" ..
  from proxyConnect_returns_after_handshake [OF h] show ?thesis by blast
qed

text \<open>
  The claim as stated has two copy loops run after the handshake. In the run below the
  dial gives connection 1 and the handshake on connection 2 succeeds; the handshake is the
  last of the four events, the handler returns, and no event uses connection 1.
\<close>

theorem proxyConnect_no_relay_counterexample:
  "net_Dial demo_world (Host demo_request) = Inr 1
   \<and> snd (proxyConnect demo_lib demo_world demo_proxy demo_request) = Return ()
   \<and> length (fst (proxyConnect demo_lib demo_world demo_proxy demo_request)) = 4
   \<and> usesConn 2 (last (fst (proxyConnect demo_lib demo_world demo_proxy demo_request)))
   \<and> filter (usesConn 1) (fst (proxyConnect demo_lib demo_world demo_proxy demo_request)) = []"
  by (simp add: demo_proxyConnect) (simp add: demo_world_def demo_request_def)

text \<open>
  Claim C4. In every run of \<^verbatim>\<open>proxyConnect\<close>, a write to the client connection comes only
  after a successful dial of the requested host, and a TLS handshake comes only after the
  status line has been written to the same connection without error.
\<close>

theorem proxyConnect_order:
  "(\<forall>i c b r. i < length (fst (proxyConnect lib w p req))
        \<and> fst (proxyConnect lib w p req) ! i = EvWrite c b r \<longrightarrow>
      (\<exists>j<i. \<exists>tc. fst (proxyConnect lib w p req) ! j = EvDial (Host req) (Inr tc)))
 \<and> (\<forall>i c cfg r. i < length (fst (proxyConnect lib w p req))
        \<and> fst (proxyConnect lib w p req) ! i = EvHandshake c cfg r \<longrightarrow>
      (\<exists>j<i. \<exists>n. fst (proxyConnect lib w p req) ! j
                     = EvWrite c (''HTTP/1.1 200 OK'' @ CRLF @ CRLF) (Inr n)))"
  by (cases rule: proxyConnect_cases [of w req lib p])
     (auto simp: nth_Cons less_Suc_eq_0_disj split: nat.splits)

theorem proxyConnect_order_witness:
  "fst (proxyConnect demo_lib demo_world demo_proxy demo_request) ! 2
     = EvWrite 2 (''HTTP/1.1 200 OK'' @ CRLF @ CRLF) (Inr 19)
   \<and> (\<exists>j<2. \<exists>tc. fst (proxyConnect demo_lib demo_world demo_proxy demo_request) ! j
                     = EvDial (Host demo_request) (Inr tc))"
proof -
  have l: "2 < length (fst (proxyConnect demo_lib demo_world demo_proxy demo_request))"
    by (simp add: demo_proxyConnect)
  have e: "fst (proxyConnect demo_lib demo_world demo_proxy demo_request) ! 2
             = EvWrite 2 (''HTTP/1.1 200 OK'' @ CRLF @ CRLF) (Inr 19)"
    by (simp add: demo_proxyConnect)
  from proxyConnect_order [of demo_lib demo_world demo_proxy demo_request] l e
  show ?thesis by blast
qed

text \<open>
  Claim C5. A request whose method is not CONNECT is answered 405 Method Not Allowed: the
  only effect of the handler is that response, so the target is never dialled and the
  connection is never hijacked.
\<close>

theorem ServeHTTP_other_method:
  assumes "Method req \<noteq> MethodConnect"
  shows "ServeHTTP lib w p req = ([EvHttpError 405 ''this proxy only supports CONNECT''], Return ())"
  using assms by (simp add: ServeHTTP_def StatusMethodNotAllowed_def)

theorem ServeHTTP_other_method_witness:
  "ServeHTTP demo_lib demo_world demo_proxy (demo_request \<lparr> Method := ''GET'' \<rparr>)
     = ([EvHttpError 405 ''this proxy only supports CONNECT''], Return ())"
  using ServeHTTP_other_method [of "demo_request \<lparr> Method := ''GET'' \<rparr>" demo_lib demo_world demo_proxy]
  by (simp add: MethodConnect_def)

text \<open>
  Claim C6. When the dial of a CONNECT request fails, the handler answers 503 Service
  Unavailable with the text of the dial error as body and returns: nothing else happens, in
  particular no hijack, and the server goes on with the connections that follow.
\<close>

theorem dial_failure_503:
  assumes "Method req = MethodConnect" and "net_Dial w (Host req) = Inl e"
  shows "ServeHTTP lib w p req = ([EvDial (Host req) (Inl e), EvHttpError 503 e], Return ())
       \<and> ListenAndServe lib p ((w, req) # rest) =
           ([EvDial (Host req) (Inl e), EvHttpError 503 e] # fst (ListenAndServe lib p rest),
            snd (ListenAndServe lib p rest))"
  using assms
  by (simp add: ServeHTTP_def proxyConnect_def StatusServiceUnavailable_def split: prod.splits)

theorem dial_failure_503_witness:
  "ListenAndServe demo_lib demo_proxy
      [(demo_world, demo_request \<lparr> Host := ''127.0.0.1:1'' \<rparr>), (demo_world, demo_request)] =
     ([[EvDial ''127.0.0.1:1'' (Inl ''dial tcp: connection refused''),
        EvHttpError 503 ''dial tcp: connection refused''],
       fst (proxyConnect demo_lib demo_world demo_proxy demo_request)],
      Return ())"
proof -
  have m: "Method (demo_request \<lparr> Host := ''127.0.0.1:1'' \<rparr>) = MethodConnect"
    by (simp add: demo_request_def MethodConnect_def)
  have d: "net_Dial demo_world (Host (demo_request \<lparr> Host := ''127.0.0.1:1'' \<rparr>))
             = Inl ''dial tcp: connection refused''"
    by (simp add: demo_world_def)
  have r: "ListenAndServe demo_lib demo_proxy [(demo_world, demo_request)]
             = ([fst (proxyConnect demo_lib demo_world demo_proxy demo_request)], Return ())"
    by (simp add: ServeHTTP_def demo_proxyConnect) (simp add: demo_request_def MethodConnect_def)
  show ?thesis
    using dial_failure_503 [OF m d, of demo_lib demo_proxy "[(demo_world, demo_request)]"]
    by (simp add: r del: ListenAndServe.simps)
qed

text \<open>
  Claim C7, as amended. In every run of \<^verbatim>\<open>proxyConnect\<close> that reaches the TLS handshake, the
  handler has written to the hijacked connection exactly once, and what it wrote is the
  literal \<^verbatim>\<open>HTTP/1.1 200 OK\r\n\r\n\<close>.
\<close>

theorem proxyConnect_status_line:
  assumes "EvHandshake c cfg r \<in> set (fst (proxyConnect lib w p req))"
  shows "\<exists>n. filter isWrite (fst (proxyConnect lib w p req))
                = [EvWrite c (''HTTP/1.1 200 OK'' @ CRLF @ CRLF) (Inr n)]"
  using assms by (cases rule: proxyConnect_cases [of w req lib p]) auto

theorem proxyConnect_status_line_witness:
  "EvHandshake 2 \<lparr> PreferServerCipherSuites = True,
                       CurvePreferences = [X25519, CurveP256],
                       MinVersion = VersionTLS13,
                       Certificates = [\<lparr> CertificateChain = [''+++++++++++.CERTIFICATEder:example.com''],
                                        TlsPrivateKey = 26 \<rparr>] \<rparr> None
     \<in> set (fst (proxyConnect demo_lib demo_world demo_proxy demo_request))
   \<and> (\<exists>n. filter isWrite (fst (proxyConnect demo_lib demo_world demo_proxy demo_request))
                = [EvWrite 2 (''HTTP/1.1 200 OK'' @ CRLF @ CRLF) (Inr n)])"
proof -
  have h: "EvHandshake 2 \<lparr> PreferServerCipherSuites = True,
                       CurvePreferences = [X25519, CurveP256],
                       MinVersion = VersionTLS13,
                       Certificates = [\<lparr> CertificateChain = [''+++++++++++.CERTIFICATEder:example.com''],
                                        TlsPrivateKey = 26 \<rparr>] \<rparr> None
     \<in> set (fst (proxyConnect demo_lib demo_world demo_proxy demo_request))"
    by (simp add: demo_proxyConnect)
  show ?thesis
    using h proxyConnect_status_line [OF h] by blast
qed

text \<open>
  The claim as stated names the literal \<^verbatim>\<open>HTTP/1.1 200 Connection Established\r\n\r\n\<close>; the
  one write of the run below carries another text.
\<close>

theorem proxyConnect_status_line_counterexample:
  "filter isWrite (fst (proxyConnect demo_lib demo_world demo_proxy demo_request))
     = [EvWrite 2 (''HTTP/1.1 200 OK'' @ CRLF @ CRLF) (Inr 19)]
   \<and> ''HTTP/1.1 200 OK'' @ CRLF @ CRLF \<noteq> ''HTTP/1.1 200 Connection Established'' @ CRLF @ CRLF"
  by (simp add: demo_proxyConnect)

text \<open>
  Claim C8. The claim asks that a readable certificate file without a PEM block yields an
  error and no crash. The code dereferences the \<^verbatim>\<open>nil\<close> block that \<^verbatim>\<open>pem.Decode\<close> returns
  for such a file: \<^verbatim>\<open>loadX509KeyPair\<close> panics, and so do \<^verbatim>\<open>createForwardProxy\<close> and
  \<^verbatim>\<open>main\<close>.
\<close>

theorem loadX509KeyPair_nil_block_panics:
  assumes "fs certFile = Inr cf" and "fs keyFile = Inr kf" and "pem_Decode lib cf = None"
  shows "loadX509KeyPair lib fs certFile keyFile = Panic nilDereference
       \<and> createForwardProxy lib fs certFile keyFile = Panic nilDereference
       \<and> main lib fs certFile keyFile inbound = ([], Panic nilDereference)"
  using assms by (simp add: loadX509KeyPair_def createForwardProxy_def main_def)

theorem loadX509KeyPair_nil_block_panics_witness:
  "demo_fs ''ca.pem'' = Inr ''not a PEM file''
   \<and> pem_Decode demo_lib ''not a PEM file'' = None
   \<and> loadX509KeyPair demo_lib demo_fs ''ca.pem'' ''ca.key'' = Panic nilDereference"
proof -
  have c: "demo_fs ''ca.pem'' = Inr ''not a PEM file''"
    and k: "demo_fs ''ca.key'' = Inr ''+++.KEYabc''"
    by (simp_all add: demo_fs_def)
  have n: "pem_Decode demo_lib ''not a PEM file'' = None"
    by (simp add: demo_lib_def demo_Decode_def)
  from loadX509KeyPair_nil_block_panics [where fs = demo_fs and lib = demo_lib, OF c k n] c n
  show ?thesis by simp
qed

text \<open>
  Claim C10, as amended. In every run of \<^verbatim>\<open>proxyConnect\<close> that reaches the handshake, the
  certificate presented was made by \<^verbatim>\<open>createCert\<close> with \<open>hoursValid = 240\<close>. Under the
  contract of \<^verbatim>\<open>crypto/x509\<close> its \<open>NotBefore\<close> is the first clock reading and its
  \<open>NotAfter\<close> is the second clock reading plus 240 hours, both in whole seconds: the
  validity window is exactly 240 hours when the two readings fall in the same second, and
  in general 240 hours plus the whole seconds between the two readings.
\<close>

theorem proxyConnect_validity:
  assumes hs: "EvHandshake c cfg r \<in> set (fst (proxyConnect lib w p req))"
    and lib: "x509_contract lib w (caCert p)"
  shows "\<exists>host port privateKey serialNumber derBytes pemCert pemKey tlsCert issued.
           net_SplitHostPort lib (Host req) = Inr (host, port)
         \<and> ecdsa_GenerateKey w = Inr privateKey
         \<and> rand_Int w (2 ^ 128) = Inr serialNumber
         \<and> x509_CreateCertificate w (createCert_template w serialNumber [host] 240)
               (caCert p) (PublicKey privateKey) (caKey p) = Inr derBytes
         \<and> pem_EncodeToMemory lib \<lparr> Type = ''CERTIFICATE'', Bytes = derBytes \<rparr> = Some pemCert
         \<and> tls_X509KeyPair lib pemCert pemKey = Inr tlsCert
         \<and> Certificates cfg = [tlsCert]
         \<and> x509_ParseCertificate lib derBytes = Inr issued
         \<and> NotBefore issued = wholeSecond (time_Now w 0)
         \<and> NotAfter issued = wholeSecond (time_Now w 1) + 864000000000000
         \<and> NotAfter issued - NotBefore issued
             = 864000000000000 + (wholeSecond (time_Now w 1) - wholeSecond (time_Now w 0))
         \<and> (wholeSecond (time_Now w 0) = wholeSecond (time_Now w 1) \<longrightarrow>
              NotAfter issued - NotBefore issued = 864000000000000)"
proof -
  from proxyConnect_handshake_cert [OF hs] obtain host port pemCert pemKey tlsCert where
    split: "net_SplitHostPort lib (Host req) = Inr (host, port)"
    and cc: "createCert lib w [host] (caCert p) (caKey p) 240 = Return (pemCert, pemKey)"
    and kp: "tls_X509KeyPair lib pemCert pemKey = Inr tlsCert"
    and cfg: "Certificates cfg = [tlsCert]"
    by blast
  from createCert_Return [OF cc] obtain privateKey serialNumber derBytes where
    gen: "ecdsa_GenerateKey w = Inr privateKey" "rand_Int w (2 ^ 128) = Inr serialNumber"
    and sign: "x509_CreateCertificate w (createCert_template w serialNumber [host] 240)
               (caCert p) (PublicKey privateKey) (caKey p) = Inr derBytes"
    and pc: "pem_EncodeToMemory lib \<lparr> Type = ''CERTIFICATE'', Bytes = derBytes \<rparr> = Some pemCert"
    by auto
  let ?t = "createCert_template w serialNumber [host] 240"
  from lib sign obtain issued where
    parse: "x509_ParseCertificate lib derBytes = Inr issued"
    and nb: "NotBefore issued = wholeSecond (NotBefore ?t)"
    and na: "NotAfter issued = wholeSecond (NotAfter ?t)"
    unfolding x509_contract_def by blast
  have nb': "NotBefore issued = wholeSecond (time_Now w 0)"
    by (simp add: nb template_fields)
  have "NotAfter issued = wholeSecond (time_Now w 1 + 240 * 3600000000000)"
    by (simp add: na template_fields sint_240_hours)
  then have na': "NotAfter issued = wholeSecond (time_Now w 1) + 864000000000000"
    unfolding wholeSecond_hours by simp
  show ?thesis
    using split gen sign pc kp cfg parse nb' na'
    by (intro exI [of _ host] exI [of _ port] exI [of _ privateKey] exI [of _ serialNumber]
        exI [of _ derBytes] exI [of _ pemCert] exI [of _ pemKey] exI [of _ tlsCert]
        exI [of _ issued]) simp
qed

theorem proxyConnect_validity_witness:
  "\<exists>derBytes issued.
      pem_EncodeToMemory demo_lib \<lparr> Type = ''CERTIFICATE'', Bytes = derBytes \<rparr>
        = Some ''+++++++++++.CERTIFICATEder:example.com''
    \<and> x509_ParseCertificate demo_lib derBytes = Inr issued
    \<and> NotAfter issued - NotBefore issued
        = 864000000000000
          + (wholeSecond (time_Now demo_world 1) - wholeSecond (time_Now demo_world 0))"
proof -
  have lib: "x509_contract demo_lib demo_world (caCert demo_proxy)"
    unfolding demo_proxy_def by (simp, rule demo_x509_contract) (simp add: demo_world_def)
  have "\<exists>cfg. EvHandshake 2 cfg None
          \<in> set (fst (proxyConnect demo_lib demo_world demo_proxy demo_request))
        \<and> Certificates cfg
            = [\<lparr> CertificateChain = [''+++++++++++.CERTIFICATEder:example.com''],
                 TlsPrivateKey = 26 \<rparr>]"
    by (simp add: demo_proxyConnect)
  then obtain cfg where
    h: "EvHandshake 2 cfg None
          \<in> set (fst (proxyConnect demo_lib demo_world demo_proxy demo_request))"
    and c: "Certificates cfg
            = [\<lparr> CertificateChain = [''+++++++++++.CERTIFICATEder:example.com''],
                 TlsPrivateKey = 26 \<rparr>]"
    by blast
  from proxyConnect_validity [OF h lib] obtain derBytes pemCert pemKey tlsCert issued where
    e: "pem_EncodeToMemory demo_lib \<lparr> Type = ''CERTIFICATE'', Bytes = derBytes \<rparr> = Some pemCert"
    and k: "tls_X509KeyPair demo_lib pemCert pemKey = Inr tlsCert"
    and t: "Certificates cfg = [tlsCert]"
    and i: "x509_ParseCertificate demo_lib derBytes = Inr issued"
    and v: "NotAfter issued - NotBefore issued
        = 864000000000000
          + (wholeSecond (time_Now demo_world 1) - wholeSecond (time_Now demo_world 0))"
    by blast
  from k t c have "pemCert = ''+++++++++++.CERTIFICATEder:example.com''"
    by (auto simp: demo_lib_def)
  with e i v show ?thesis by blast
qed

text \<open>
  The claim as stated makes the window exactly 240 hours. In the run below the two clock
  readings lie on either side of a full second, and the window of the certificate that is
  presented in the handshake is 240 hours and one second.
\<close>

theorem proxyConnect_validity_counterexample:
  "time_Now demo_world 0 = 999999999
   \<and> time_Now demo_world 1 = 1000000000
   \<and> snd (proxyConnect demo_lib demo_world demo_proxy demo_request) = Return ()
   \<and> last (fst (proxyConnect demo_lib demo_world demo_proxy demo_request))
       = EvHandshake 2 \<lparr> PreferServerCipherSuites = True,
                         CurvePreferences = [X25519, CurveP256],
                         MinVersion = VersionTLS13,
                         Certificates =
                           [\<lparr> CertificateChain = [''+++++++++++.CERTIFICATEder:example.com''],
                              TlsPrivateKey = 26 \<rparr>] \<rparr> None
   \<and> pem_Decode demo_lib ''+++++++++++.CERTIFICATEder:example.com''
       = Some \<lparr> Type = ''CERTIFICATE'', Bytes = ''der:example.com'' \<rparr>
   \<and> x509_ParseCertificate demo_lib ''der:example.com'' = Inr (demo_leaf 0 864001000000000)
   \<and> NotAfter (demo_leaf 0 864001000000000) - NotBefore (demo_leaf 0 864001000000000)
       = 864001000000000
   \<and> (864001000000000 :: int) \<noteq> 864000000000000"
proof -
  have t: "time_Now demo_world 0 = 999999999" "time_Now demo_world 1 = 1000000000"
    by (simp_all add: demo_world_def)
  have d: "pem_Decode demo_lib ''+++++++++++.CERTIFICATEder:example.com''
       = Some \<lparr> Type = ''CERTIFICATE'', Bytes = ''der:example.com'' \<rparr>"
    by (simp add: demo_lib_def demo_Decode_def)
  have q: "x509_ParseCertificate demo_lib ''der:example.com'' = Inr (demo_leaf 0 864001000000000)"
    by (simp add: demo_lib_def demo_ParseCertificate_def)
  have n: "NotAfter (demo_leaf 0 864001000000000) - NotBefore (demo_leaf 0 864001000000000)
       = 864001000000000"
    by (simp add: demo_leaf_def)
  show ?thesis
    using t d q n by (simp add: demo_proxyConnect)
qed

end
